theory Spec2Isabelle
  imports Main
begin

section \<open>Values, errors and notifications\<close>

text \<open>
  The pipelines of \<^verbatim>\<open>AbstractStore\<close> carry values of type \<^verbatim>\<open>unknown\<close>: whatever the API
  client returned. They are modelled as JSON-like values. An object is an association list
  of its own properties.
\<close>

datatype raw =
    RUndefined
  | RNull
  | RNum int
  | RStr string
  | RArr "raw list"
  | RObj "(string \<times> raw) list"

text \<open>
  A thrown value: JavaScript throws any value (\<open>Thrown\<close>); reading a property of
  \<^verbatim>\<open>null\<close> or \<^verbatim>\<open>undefined\<close> throws a \<^verbatim>\<open>TypeError\<close>.
\<close>

datatype error = TypeError | Thrown raw

text \<open>
  What a producer delivers to its subscriber. The API client's producers (HTTP requests)
  deliver one value and complete, or fail; \<^verbatim>\<open>EMPTY\<close> completes without a value.
  \<open>Emitted v\<close> stands for \<^verbatim>\<open>next(v)\<close> followed by \<^verbatim>\<open>complete()\<close>.
\<close>

datatype 'v notification = Emitted 'v | Errored error | Completed

section \<open>The store: six BehaviorSubjects and the values captured at construction\<close>

text \<open>
  One constructor per \<^verbatim>\<open>BehaviorSubject\<close> of the store. The list \<open>writes\<close> of the store
  records every \<^verbatim>\<open>next\<close> in the order the subscribers of the subjects see them.
\<close>

datatype 'a channel_write =
    ItemWrite "'a option"
  | ItemsWrite "'a list"
  | IsFetchingWrite bool
  | IsFetchingAfterManipulateWrite bool
  | ResponseWrite raw
  | ErrorWrite error

record 'a store =
  itemStore :: "'a option"
  itemsStore :: "'a list"
  isFetchingStore :: bool
  isFetchingAfterManipulateStore :: bool
  responseStore :: raw
  errorStore :: "error option"
  isFetchingValue :: bool
  isFetchingAfterManipulateValue :: bool
  writes :: "'a channel_write list"

text \<open>
  \<^verbatim>\<open>createItemStore(initialValue = null)\<close>, \<^verbatim>\<open>createItemsStore(initialValue = [])\<close>,
  \<^verbatim>\<open>createFetchingStore(initialValue = false)\<close>: the initial value of a new subject; an
  omitted argument is \<open>None\<close>.
\<close>

definition createItemStore :: "'b option \<Rightarrow> 'b option" where
  "createItemStore initialValue = initialValue"

definition createItemsStore :: "'b list option \<Rightarrow> 'b list" where
  "createItemsStore initialValue = (case initialValue of None \<Rightarrow> [] | Some v \<Rightarrow> v)"

definition createFetchingStore :: "bool option \<Rightarrow> bool" where
  "createFetchingStore initialValue = (case initialValue of None \<Rightarrow> False | Some v \<Rightarrow> v)"

text \<open>
  The field initialisers of \<^verbatim>\<open>AbstractStore\<close>. \<^verbatim>\<open>_isFetchingValue\<close> and
  \<^verbatim>\<open>_isFetchingAfterManipulateValue\<close> are \<^verbatim>\<open>getValue()\<close> of the two flag subjects, read
  once, here. The response and error subjects hold \<^verbatim>\<open>any\<close> and start at \<^verbatim>\<open>null\<close>.
\<close>

definition AbstractStore :: "'a store" where
  "AbstractStore =
     (let fetching = createFetchingStore None;
          fetchingAfterManipulate = createFetchingStore None
      in \<lparr> itemStore = createItemStore None,
           itemsStore = createItemsStore None,
           isFetchingStore = fetching,
           isFetchingAfterManipulateStore = fetchingAfterManipulate,
           responseStore = RNull,
           errorStore = createItemStore None,
           isFetchingValue = fetching,
           isFetchingAfterManipulateValue = fetchingAfterManipulate,
           writes = [] \<rparr>)"

text \<open>\<^verbatim>\<open>subject.next(value)\<close> for each of the six subjects.\<close>

definition itemStore_next :: "'a option \<Rightarrow> 'a store \<Rightarrow> 'a store" where
  "itemStore_next v s = s\<lparr>itemStore := v, writes := writes s @ [ItemWrite v]\<rparr>"

definition itemsStore_next :: "'a list \<Rightarrow> 'a store \<Rightarrow> 'a store" where
  "itemsStore_next v s = s\<lparr>itemsStore := v, writes := writes s @ [ItemsWrite v]\<rparr>"

definition isFetchingStore_next :: "bool \<Rightarrow> 'a store \<Rightarrow> 'a store" where
  "isFetchingStore_next v s = s\<lparr>isFetchingStore := v, writes := writes s @ [IsFetchingWrite v]\<rparr>"

definition isFetchingAfterManipulateStore_next :: "bool \<Rightarrow> 'a store \<Rightarrow> 'a store" where
  "isFetchingAfterManipulateStore_next v s =
     s\<lparr>isFetchingAfterManipulateStore := v,
       writes := writes s @ [IsFetchingAfterManipulateWrite v]\<rparr>"

definition responseStore_next :: "raw \<Rightarrow> 'a store \<Rightarrow> 'a store" where
  "responseStore_next v s = s\<lparr>responseStore := v, writes := writes s @ [ResponseWrite v]\<rparr>"

definition errorStore_next :: "error \<Rightarrow> 'a store \<Rightarrow> 'a store" where
  "errorStore_next v s = s\<lparr>errorStore := Some v, writes := writes s @ [ErrorWrite v]\<rparr>"

text \<open>The public getters \<^verbatim>\<open>isLoaded\<close> and \<^verbatim>\<open>isLoadedAfterManipulate\<close>.\<close>

definition isLoaded :: "'a store \<Rightarrow> bool" where
  "isLoaded s = (isFetchingValue s = False)"

definition isLoadedAfterManipulate :: "'a store \<Rightarrow> bool" where
  "isLoadedAfterManipulate s = (isFetchingAfterManipulateValue s = False)"

text \<open>\<^verbatim>\<open>clearItemStore\<close>, \<^verbatim>\<open>clearItemsStore\<close>.\<close>

definition clearItemStore :: "'a store \<Rightarrow> 'a store" where
  "clearItemStore s = itemStore_next None s"

definition clearItemsStore :: "'a store \<Rightarrow> 'a store" where
  "clearItemsStore s = itemsStore_next [] s"

section \<open>Observables and the RxJS operators the store uses\<close>

text \<open>
  A cold observable does nothing until it is subscribed. Subscribing runs it on the current
  store: it delivers a notification and leaves the store as its side effects wrote it.
\<close>

type_synonym ('a, 'v) observable = "'a store \<Rightarrow> 'v notification \<times> 'a store"

text \<open>The API client's producer: it delivers its notification and touches no subject.\<close>

definition producer :: "'v notification \<Rightarrow> ('a, 'v) observable" where
  "producer n = (\<lambda>s. (n, s))"

definition of_value :: "'v \<Rightarrow> ('a, 'v) observable" where
  "of_value v = (\<lambda>s. (Emitted v, s))"

definition EMPTY :: "('a, 'v) observable" where
  "EMPTY = (\<lambda>s. (Completed, s))"

definition throwError :: "error \<Rightarrow> ('a, 'v) observable" where
  "throwError err = (\<lambda>s. (Errored err, s))"

text \<open>\<^verbatim>\<open>map(project)\<close>: a \<^verbatim>\<open>project\<close> that throws turns the value into an error.\<close>

definition map_op :: "('v \<Rightarrow> error + 'w) \<Rightarrow> ('a, 'v) observable \<Rightarrow> ('a, 'w) observable" where
  "map_op project source = (\<lambda>s.
     case source s of
       (Emitted v, s1) \<Rightarrow> (case project v of Inl err \<Rightarrow> (Errored err, s1) | Inr w \<Rightarrow> (Emitted w, s1))
     | (Errored err, s1) \<Rightarrow> (Errored err, s1)
     | (Completed, s1) \<Rightarrow> (Completed, s1))"

text \<open>\<^verbatim>\<open>tap(effect)\<close>: the side effect runs on a value only, and the value passes through.\<close>

definition tap :: "('v \<Rightarrow> 'a store \<Rightarrow> 'a store) \<Rightarrow> ('a, 'v) observable \<Rightarrow> ('a, 'v) observable" where
  "tap effect source = (\<lambda>s.
     case source s of
       (Emitted v, s1) \<Rightarrow> (Emitted v, effect v s1)
     | (Errored err, s1) \<Rightarrow> (Errored err, s1)
     | (Completed, s1) \<Rightarrow> (Completed, s1))"

text \<open>
  \<^verbatim>\<open>catchError(selector)\<close>: on an error of the source the selector runs (with its side
  effects) and the observable it returns is subscribed in place of the source.
\<close>

definition catchError ::
  "(error \<Rightarrow> 'a store \<Rightarrow> ('a, 'v) observable \<times> 'a store) \<Rightarrow> ('a, 'v) observable \<Rightarrow> ('a, 'v) observable" where
  "catchError selector source = (\<lambda>s.
     case source s of
       (Emitted v, s1) \<Rightarrow> (Emitted v, s1)
     | (Errored err, s1) \<Rightarrow> (case selector err s1 of (replacement, s2) \<Rightarrow> replacement s2)
     | (Completed, s1) \<Rightarrow> (Completed, s1))"

text \<open>\<^verbatim>\<open>switchMap(project)\<close>: the inner observable is subscribed for the value of the source.\<close>

definition switchMap :: "('v \<Rightarrow> ('a, 'w) observable) \<Rightarrow> ('a, 'v) observable \<Rightarrow> ('a, 'w) observable" where
  "switchMap project source = (\<lambda>s.
     case source s of
       (Emitted v, s1) \<Rightarrow> project v s1
     | (Errored err, s1) \<Rightarrow> (Errored err, s1)
     | (Completed, s1) \<Rightarrow> (Completed, s1))"

section \<open>Entity transformation and list reconciliation\<close>

text \<open>\<^verbatim>\<open>getModel(model, item)\<close> is \<^verbatim>\<open>new model(item)\<close>; the constructor may throw.\<close>

definition getModel :: "(raw \<Rightarrow> error + 'a) \<Rightarrow> raw \<Rightarrow> error + 'a" where
  "getModel model item = model item"

text \<open>
  Modelled from the spec: the elementwise construction inside the helper
  \<^verbatim>\<open>getClassInstances\<close> (below), which is not among the sources. The elements of an array
  are constructed in order; the first constructor that throws ends it.
\<close>

fun instances :: "(raw \<Rightarrow> error + 'a) \<Rightarrow> raw list \<Rightarrow> error + 'a list" where
  "instances model [] = Inr []"
| "instances model (item # items) =
     (case model item of
        Inl err \<Rightarrow> Inl err
      | Inr m \<Rightarrow> (case instances model items of Inl err \<Rightarrow> Inl err | Inr ms \<Rightarrow> Inr (m # ms)))"

text \<open>
  Modelled from the spec: the helper \<^verbatim>\<open>getClassInstances\<close> is imported by the store and is not
  among the sources. The specification's \<^verbatim>\<open>toModels\<close> applies the constructor elementwise
  and returns an empty list if the raw list is empty or absent. The specification says
  nothing of a value that is neither an array nor absent; it is taken to raise.
\<close>

fun getClassInstances :: "(raw \<Rightarrow> error + 'a) \<Rightarrow> raw \<Rightarrow> error + 'a list" where
  "getClassInstances model (RArr items) = instances model items"
| "getClassInstances model RUndefined = Inr []"
| "getClassInstances model RNull = Inr []"
| "getClassInstances model (RNum n) = Inl TypeError"
| "getClassInstances model (RStr str) = Inl TypeError"
| "getClassInstances model (RObj props) = Inl TypeError"

definition getModels :: "(raw \<Rightarrow> error + 'a) \<Rightarrow> raw \<Rightarrow> error + 'a list" where
  "getModels model items = getClassInstances model items"

text \<open>
  Modelled from the spec: the helper \<^verbatim>\<open>updateItemsArrayById\<close> is imported by the store and is
  not among the sources. The specification's \<^verbatim>\<open>upsertById(list, item)\<close> scans the list for
  an entry whose id equals the item's; if found, it replaces it in place; if not found, it
  appends. The id of an entity (\<^verbatim>\<open>ItemWithId\<close>) is read by \<open>idOf\<close>.
\<close>

fun updateItemsArrayById :: "('a \<Rightarrow> nat) \<Rightarrow> 'a list \<Rightarrow> 'a \<Rightarrow> 'a list" where
  "updateItemsArrayById idOf [] item = [item]"
| "updateItemsArrayById idOf (x # xs) item =
     (if idOf x = idOf item then item # xs else x # updateItemsArrayById idOf xs item)"

text \<open>
  Modelled from the spec: the helper \<^verbatim>\<open>updateMultipleItemsArrayById\<close> is imported by the store
  and is not among the sources. The specification's \<^verbatim>\<open>upsertManyById(list, items)\<close> applies
  \<^verbatim>\<open>upsertById\<close> once per element of \<^verbatim>\<open>items\<close>, in their order.
\<close>

fun updateMultipleItemsArrayById :: "('a \<Rightarrow> nat) \<Rightarrow> 'a list \<Rightarrow> 'a list \<Rightarrow> 'a list" where
  "updateMultipleItemsArrayById idOf list [] = list"
| "updateMultipleItemsArrayById idOf list (item # items) =
     updateMultipleItemsArrayById idOf (updateItemsArrayById idOf list item) items"

text \<open>
  \<^verbatim>\<open>value[key]\<close>: an own property of an object, \<^verbatim>\<open>undefined\<close> when the object has none of
  that name; on \<^verbatim>\<open>null\<close> and \<^verbatim>\<open>undefined\<close> the read throws. Inherited and index
  properties of the other values are not modelled (they read as \<^verbatim>\<open>undefined\<close>).
\<close>

fun getProperty :: "string \<Rightarrow> raw \<Rightarrow> error + raw" where
  "getProperty key (RObj props) =
     (case map_of props key of None \<Rightarrow> Inr RUndefined | Some v \<Rightarrow> Inr v)"
| "getProperty key RUndefined = Inl TypeError"
| "getProperty key RNull = Inl TypeError"
| "getProperty key (RNum n) = Inr RUndefined"
| "getProperty key (RStr str) = Inr RUndefined"
| "getProperty key (RArr items) = Inr RUndefined"

section \<open>The pipelines of AbstractStore\<close>

text \<open>
  Every pipeline is given here with its \<^verbatim>\<open>stores\<close> argument at its default, the store's own
  subjects. The constructor \<open>model\<close> is the one the store was built with.
\<close>

definition getModelAndSetValue ::
  "(raw \<Rightarrow> error + 'a) \<Rightarrow> ('a, raw) observable \<Rightarrow> ('a, 'a) observable" where
  "getModelAndSetValue model source =
     (let o1 = map_op (\<lambda>v. getModel model v) source;
          o2 = tap (\<lambda>m. itemStore_next (Some m)) o1;
          o3 = tap (\<lambda>m. isFetchingStore_next False) o2
      in catchError (\<lambda>err s. (EMPTY, isFetchingStore_next False s)) o3)"

definition getModelsAndSetValue ::
  "(raw \<Rightarrow> error + 'a) \<Rightarrow> ('a, raw) observable \<Rightarrow> ('a, 'a list) observable" where
  "getModelsAndSetValue model source =
     (let o1 = map_op (\<lambda>v. getModels model v) source;
          o2 = tap (\<lambda>ms. itemsStore_next ms) o1;
          o3 = tap (\<lambda>ms. isFetchingStore_next False) o2
      in catchError (\<lambda>err s. (EMPTY, isFetchingStore_next False s)) o3)"

text \<open>\<^verbatim>\<open>key: string = 'results'\<close>: an omitted key is \<open>None\<close>.\<close>

definition takeItemsGetModelsAndSetValue ::
  "string option \<Rightarrow> (raw \<Rightarrow> error + 'a) \<Rightarrow> ('a, raw) observable \<Rightarrow> ('a, 'a list) observable" where
  "takeItemsGetModelsAndSetValue key model source =
     (let k = (case key of None \<Rightarrow> ''results'' | Some k' \<Rightarrow> k');
          o1 = tap (\<lambda>response. responseStore_next response) source;
          o2 = map_op (\<lambda>v. getProperty k v) o1;
          o3 = getModelsAndSetValue model o2;
          o4 = tap (\<lambda>ms. isFetchingStore_next False) o3
      in catchError (\<lambda>err s. (EMPTY, isFetchingStore_next False s)) o4)"

text \<open>
  \<^verbatim>\<open>preventBehaviourIfError(behavior)\<close>: \<^verbatim>\<open>catchError\<close> on the source, then
  \<^verbatim>\<open>switchMap(value => of(value).pipe(behavior))\<close>.
\<close>

definition preventBehaviourIfError ::
  "(('a, 'v) observable \<Rightarrow> ('a, 'w) observable) \<Rightarrow> ('a, 'v) observable \<Rightarrow> ('a, 'w) observable" where
  "preventBehaviourIfError behavior source =
     (let o1 = catchError
                 (\<lambda>err s. (throwError err,
                            isFetchingAfterManipulateStore_next False (errorStore_next err s)))
                 source
      in switchMap (\<lambda>v. behavior (of_value v)) o1)"

datatype position = Head | Last

text \<open>\<^verbatim>\<open>position: 'head' | 'last' = 'last'\<close>: an omitted position is \<open>None\<close>.\<close>

definition createItemBehavior ::
  "position option \<Rightarrow> (raw \<Rightarrow> error + 'a) \<Rightarrow> ('a, raw) observable \<Rightarrow> ('a, 'a) observable" where
  "createItemBehavior position model source =
     (let pos = (case position of None \<Rightarrow> Last | Some p \<Rightarrow> p)
      in preventBehaviourIfError
           (\<lambda>inner.
              let o1 = tap (\<lambda>response. responseStore_next response) inner;
                  o2 = map_op (\<lambda>v. getModel model v) o1;
                  o3 = tap (\<lambda>m s.
                         let s1 = itemStore_next (Some m) s;
                             s2 = itemsStore_next
                                    (if pos = Head then m # itemsStore s1 else itemsStore s1 @ [m]) s1
                         in isFetchingAfterManipulateStore_next False s2) o2
              in catchError (\<lambda>err s. (EMPTY, isFetchingAfterManipulateStore_next False s)) o3)
           source)"

definition updateItemBehavior ::
  "('a \<Rightarrow> nat) \<Rightarrow> (raw \<Rightarrow> error + 'a) \<Rightarrow> ('a, raw) observable \<Rightarrow> ('a, 'a) observable" where
  "updateItemBehavior idOf model source =
     preventBehaviourIfError
       (\<lambda>inner.
          let o1 = tap (\<lambda>response. responseStore_next response) inner;
              o2 = map_op (\<lambda>v. getModel model v) o1;
              o3 = tap (\<lambda>m s.
                     let s1 = itemStore_next (Some m) s;
                         s2 = itemsStore_next (updateItemsArrayById idOf (itemsStore s1) m) s1
                     in isFetchingAfterManipulateStore_next False s2) o2
          in catchError (\<lambda>err s. (EMPTY, isFetchingAfterManipulateStore_next False s)) o3)
       source"

definition updateMultipleItemsBehavior ::
  "('a \<Rightarrow> nat) \<Rightarrow> (raw \<Rightarrow> error + 'a) \<Rightarrow> ('a, raw) observable \<Rightarrow> ('a, 'a list) observable" where
  "updateMultipleItemsBehavior idOf model source =
     preventBehaviourIfError
       (\<lambda>inner.
          let o1 = tap (\<lambda>response. responseStore_next response) inner;
              o2 = map_op (\<lambda>v. getModels model v) o1;
              o3 = tap (\<lambda>ms s.
                     let s1 = itemsStore_next (updateMultipleItemsArrayById idOf (itemsStore s) ms) s
                     in isFetchingAfterManipulateStore_next False s1) o2
          in catchError (\<lambda>err s. (EMPTY, isFetchingAfterManipulateStore_next False s)) o3)
       source"

definition deleteItemBehavior ::
  "('a \<Rightarrow> nat) \<Rightarrow> nat \<Rightarrow> ('a, raw) observable \<Rightarrow> ('a, raw) observable" where
  "deleteItemBehavior idOf itemId source =
     preventBehaviourIfError
       (\<lambda>inner.
          let o1 = tap (\<lambda>response. responseStore_next response) inner;
              o2 = tap (\<lambda>v s.
                     let s1 = itemsStore_next (filter (\<lambda>item. idOf item \<noteq> itemId) (itemsStore s)) s
                     in isFetchingAfterManipulateStore_next False s1) o1
          in catchError (\<lambda>err s. (EMPTY, isFetchingAfterManipulateStore_next False s)) o2)
       source"

text \<open>
  \<^verbatim>\<open>startFetchingWrapper(func)\<close> and \<^verbatim>\<open>startFetchingAfterManipulateWrapper(func)\<close>: the flag
  is written when the wrapper is called, and \<^verbatim>\<open>func\<close> is returned as it is.
\<close>

definition startFetchingWrapper :: "'f \<Rightarrow> 'a store \<Rightarrow> 'f \<times> 'a store" where
  "startFetchingWrapper func s = (func, isFetchingStore_next True s)"

definition startFetchingAfterManipulateWrapper :: "'f \<Rightarrow> 'a store \<Rightarrow> 'f \<times> 'a store" where
  "startFetchingAfterManipulateWrapper func s = (func, isFetchingAfterManipulateStore_next True s)"

section \<open>The Dream store: the methods of the facade\<close>

text \<open>
  \<^verbatim>\<open>DreamStoreService\<close> extends the store with the constructor \<^verbatim>\<open>Dream\<close> (here \<open>model\<close>).
  A method builds the cold observable \<open>api\<close> of the API client, pipes it through a pipeline
  and returns it; calling the method subscribes to nothing. The arguments of a method only
  shape the request, so the request's observable stands for them.
\<close>

definition getProfileDreams ::
  "(raw \<Rightarrow> error + 'a) \<Rightarrow> ('a, raw) observable \<Rightarrow> 'a store \<Rightarrow> ('a, 'a list) observable \<times> 'a store" where
  "getProfileDreams model api s =
     startFetchingWrapper (takeItemsGetModelsAndSetValue None model api) s"

definition getDreamsAsAdmin ::
  "(raw \<Rightarrow> error + 'a) \<Rightarrow> ('a, raw) observable \<Rightarrow> 'a store \<Rightarrow> ('a, 'a list) observable \<times> 'a store" where
  "getDreamsAsAdmin model api s =
     startFetchingWrapper (takeItemsGetModelsAndSetValue None model api) s"

definition getPlatformDreamsAsAdmin ::
  "(raw \<Rightarrow> error + 'a) \<Rightarrow> ('a, raw) observable \<Rightarrow> 'a store \<Rightarrow> ('a, 'a list) observable \<times> 'a store" where
  "getPlatformDreamsAsAdmin model api s =
     startFetchingWrapper (takeItemsGetModelsAndSetValue None model api) s"

definition getDreamById ::
  "(raw \<Rightarrow> error + 'a) \<Rightarrow> ('a, raw) observable \<Rightarrow> 'a store \<Rightarrow> ('a, 'a) observable \<times> 'a store" where
  "getDreamById model api s = startFetchingWrapper (getModelAndSetValue model api) s"

definition getDreamByIdAsAdmin ::
  "(raw \<Rightarrow> error + 'a) \<Rightarrow> ('a, raw) observable \<Rightarrow> 'a store \<Rightarrow> ('a, 'a) observable \<times> 'a store" where
  "getDreamByIdAsAdmin model api s = startFetchingWrapper (getModelAndSetValue model api) s"

definition createDream ::
  "(raw \<Rightarrow> error + 'a) \<Rightarrow> ('a, raw) observable \<Rightarrow> 'a store \<Rightarrow> ('a, 'a) observable \<times> 'a store" where
  "createDream model api s =
     startFetchingAfterManipulateWrapper (createItemBehavior None model api) s"

definition updateDreamAsAdmin ::
  "('a \<Rightarrow> nat) \<Rightarrow> (raw \<Rightarrow> error + 'a) \<Rightarrow> ('a, raw) observable \<Rightarrow> 'a store
     \<Rightarrow> ('a, 'a) observable \<times> 'a store" where
  "updateDreamAsAdmin idOf model api s =
     startFetchingAfterManipulateWrapper (updateItemBehavior idOf model api) s"

definition updateMultipleDreams ::
  "('a \<Rightarrow> nat) \<Rightarrow> (raw \<Rightarrow> error + 'a) \<Rightarrow> ('a, raw) observable \<Rightarrow> 'a store
     \<Rightarrow> ('a, 'a list) observable \<times> 'a store" where
  "updateMultipleDreams idOf model api s =
     startFetchingAfterManipulateWrapper (updateMultipleItemsBehavior idOf model api) s"

definition updateMultiplePlatformDreams ::
  "('a \<Rightarrow> nat) \<Rightarrow> (raw \<Rightarrow> error + 'a) \<Rightarrow> ('a, raw) observable \<Rightarrow> 'a store
     \<Rightarrow> ('a, 'a list) observable \<times> 'a store" where
  "updateMultiplePlatformDreams idOf model api s =
     startFetchingAfterManipulateWrapper (updateMultipleItemsBehavior idOf model api) s"

definition setIsDreamCompleted ::
  "('a \<Rightarrow> nat) \<Rightarrow> (raw \<Rightarrow> error + 'a) \<Rightarrow> ('a, raw) observable \<Rightarrow> 'a store
     \<Rightarrow> ('a, 'a) observable \<times> 'a store" where
  "setIsDreamCompleted idOf model api s = (updateItemBehavior idOf model api, s)"

definition setIsWithDelivery ::
  "('a \<Rightarrow> nat) \<Rightarrow> (raw \<Rightarrow> error + 'a) \<Rightarrow> ('a, raw) observable \<Rightarrow> 'a store
     \<Rightarrow> ('a, 'a) observable \<times> 'a store" where
  "setIsWithDelivery idOf model api s = (updateItemBehavior idOf model api, s)"

section \<open>Sequences of operations on a store\<close>

text \<open>
  What a subclass and its consumers can do to a store: call a wrapper, subscribe to a
  pipeline on a producer of the API client, write through a setter (\<^verbatim>\<open>_setItemValue\<close>,
  \<^verbatim>\<open>_setItemsValue\<close>, \<^verbatim>\<open>_setErrorValue\<close>, or \<^verbatim>\<open>next\<close> on a flag subject), clear.
\<close>

datatype 'a invocation =
    StartFetching
  | StartFetchingAfterManipulate
  | FetchSingle "raw notification"
  | FetchList "raw notification"
  | FetchListKeyed "string option" "raw notification"
  | CreateItem "position option" "raw notification"
  | UpdateItem "raw notification"
  | UpdateMultipleItems "raw notification"
  | DeleteItem nat "raw notification"
  | SetItemValue "'a option"
  | SetItemsValue "'a list"
  | SetErrorValue error
  | SetIsFetching bool
  | SetIsFetchingAfterManipulate bool
  | ClearItemStore
  | ClearItemsStore

fun invoke :: "('a \<Rightarrow> nat) \<Rightarrow> (raw \<Rightarrow> error + 'a) \<Rightarrow> 'a invocation \<Rightarrow> 'a store \<Rightarrow> 'a store" where
  "invoke idOf model StartFetching s = snd (startFetchingWrapper () s)"
| "invoke idOf model StartFetchingAfterManipulate s = snd (startFetchingAfterManipulateWrapper () s)"
| "invoke idOf model (FetchSingle n) s = snd (getModelAndSetValue model (producer n) s)"
| "invoke idOf model (FetchList n) s = snd (getModelsAndSetValue model (producer n) s)"
| "invoke idOf model (FetchListKeyed key n) s =
     snd (takeItemsGetModelsAndSetValue key model (producer n) s)"
| "invoke idOf model (CreateItem position n) s =
     snd (createItemBehavior position model (producer n) s)"
| "invoke idOf model (UpdateItem n) s = snd (updateItemBehavior idOf model (producer n) s)"
| "invoke idOf model (UpdateMultipleItems n) s =
     snd (updateMultipleItemsBehavior idOf model (producer n) s)"
| "invoke idOf model (DeleteItem itemId n) s =
     snd (deleteItemBehavior idOf itemId (producer n) s)"
| "invoke idOf model (SetItemValue v) s = itemStore_next v s"
| "invoke idOf model (SetItemsValue v) s = itemsStore_next v s"
| "invoke idOf model (SetErrorValue v) s = errorStore_next v s"
| "invoke idOf model (SetIsFetching v) s = isFetchingStore_next v s"
| "invoke idOf model (SetIsFetchingAfterManipulate v) s = isFetchingAfterManipulateStore_next v s"
| "invoke idOf model ClearItemStore s = clearItemStore s"
| "invoke idOf model ClearItemsStore s = clearItemsStore s"

fun invokeAll ::
  "('a \<Rightarrow> nat) \<Rightarrow> (raw \<Rightarrow> error + 'a) \<Rightarrow> 'a invocation list \<Rightarrow> 'a store \<Rightarrow> 'a store" where
  "invokeAll idOf model [] s = s"
| "invokeAll idOf model (i # is) s = invokeAll idOf model is (invoke idOf model i s)"

section \<open>What each pipeline does on a subscription\<close>

lemma getModelAndSetValue_run:
  "getModelAndSetValue model source s =
     (case source s of
        (Emitted v, s1) \<Rightarrow>
          (case model v of
             Inl err \<Rightarrow> (Completed, isFetchingStore_next False s1)
           | Inr m \<Rightarrow> (Emitted m, isFetchingStore_next False (itemStore_next (Some m) s1)))
      | (Errored err, s1) \<Rightarrow> (Completed, isFetchingStore_next False s1)
      | (Completed, s1) \<Rightarrow> (Completed, s1))"
  by (simp add: getModelAndSetValue_def Let_def map_op_def tap_def catchError_def EMPTY_def
      getModel_def split: prod.splits notification.splits sum.splits)

lemma getModelsAndSetValue_run:
  "getModelsAndSetValue model source s =
     (case source s of
        (Emitted v, s1) \<Rightarrow>
          (case getModels model v of
             Inl err \<Rightarrow> (Completed, isFetchingStore_next False s1)
           | Inr ms \<Rightarrow> (Emitted ms, isFetchingStore_next False (itemsStore_next ms s1)))
      | (Errored err, s1) \<Rightarrow> (Completed, isFetchingStore_next False s1)
      | (Completed, s1) \<Rightarrow> (Completed, s1))"
  by (simp add: getModelsAndSetValue_def Let_def map_op_def tap_def catchError_def EMPTY_def
      split: prod.splits notification.splits sum.splits)

lemma takeItemsGetModelsAndSetValue_run:
  "takeItemsGetModelsAndSetValue key model source s =
     (case source s of
        (Emitted r, s1) \<Rightarrow>
          (case getProperty (case key of None \<Rightarrow> ''results'' | Some k \<Rightarrow> k) r of
             Inl err \<Rightarrow> (Completed, isFetchingStore_next False (responseStore_next r s1))
           | Inr w \<Rightarrow>
               (case getModels model w of
                  Inl err \<Rightarrow> (Completed, isFetchingStore_next False (responseStore_next r s1))
                | Inr ms \<Rightarrow>
                    (Emitted ms,
                     isFetchingStore_next False
                       (isFetchingStore_next False
                          (itemsStore_next ms (responseStore_next r s1))))))
      | (Errored err, s1) \<Rightarrow> (Completed, isFetchingStore_next False s1)
      | (Completed, s1) \<Rightarrow> (Completed, s1))"
  by (simp add: takeItemsGetModelsAndSetValue_def getModelsAndSetValue_run Let_def map_op_def
      tap_def catchError_def EMPTY_def split: prod.splits notification.splits sum.splits)

lemma preventBehaviourIfError_run:
  "preventBehaviourIfError behavior source s =
     (case source s of
        (Emitted v, s1) \<Rightarrow> behavior (of_value v) s1
      | (Errored err, s1) \<Rightarrow>
          (Errored err, isFetchingAfterManipulateStore_next False (errorStore_next err s1))
      | (Completed, s1) \<Rightarrow> (Completed, s1))"
  by (simp add: preventBehaviourIfError_def Let_def catchError_def switchMap_def throwError_def
      split: prod.splits notification.splits)

lemma createItemBehavior_run:
  "createItemBehavior position model source s =
     (case source s of
        (Emitted v, s1) \<Rightarrow>
          (case model v of
             Inl err \<Rightarrow>
               (Completed, isFetchingAfterManipulateStore_next False (responseStore_next v s1))
           | Inr m \<Rightarrow>
               (Emitted m,
                isFetchingAfterManipulateStore_next False
                  (itemsStore_next
                     (if (case position of None \<Rightarrow> Last | Some p \<Rightarrow> p) = Head
                      then m # itemsStore s1 else itemsStore s1 @ [m])
                     (itemStore_next (Some m) (responseStore_next v s1)))))
      | (Errored err, s1) \<Rightarrow>
          (Errored err, isFetchingAfterManipulateStore_next False (errorStore_next err s1))
      | (Completed, s1) \<Rightarrow> (Completed, s1))"
  by (auto simp add: createItemBehavior_def preventBehaviourIfError_run Let_def map_op_def tap_def
      catchError_def EMPTY_def of_value_def getModel_def itemStore_next_def responseStore_next_def
      split: prod.splits notification.splits sum.splits)

lemma updateItemBehavior_run:
  "updateItemBehavior idOf model source s =
     (case source s of
        (Emitted v, s1) \<Rightarrow>
          (case model v of
             Inl err \<Rightarrow>
               (Completed, isFetchingAfterManipulateStore_next False (responseStore_next v s1))
           | Inr m \<Rightarrow>
               (Emitted m,
                isFetchingAfterManipulateStore_next False
                  (itemsStore_next (updateItemsArrayById idOf (itemsStore s1) m)
                     (itemStore_next (Some m) (responseStore_next v s1)))))
      | (Errored err, s1) \<Rightarrow>
          (Errored err, isFetchingAfterManipulateStore_next False (errorStore_next err s1))
      | (Completed, s1) \<Rightarrow> (Completed, s1))"
  by (auto simp add: updateItemBehavior_def preventBehaviourIfError_run Let_def map_op_def tap_def
      catchError_def EMPTY_def of_value_def getModel_def itemStore_next_def responseStore_next_def
      split: prod.splits notification.splits sum.splits)

lemma updateMultipleItemsBehavior_run:
  "updateMultipleItemsBehavior idOf model source s =
     (case source s of
        (Emitted v, s1) \<Rightarrow>
          (case getModels model v of
             Inl err \<Rightarrow>
               (Completed, isFetchingAfterManipulateStore_next False (responseStore_next v s1))
           | Inr ms \<Rightarrow>
               (Emitted ms,
                isFetchingAfterManipulateStore_next False
                  (itemsStore_next (updateMultipleItemsArrayById idOf (itemsStore s1) ms)
                     (responseStore_next v s1))))
      | (Errored err, s1) \<Rightarrow>
          (Errored err, isFetchingAfterManipulateStore_next False (errorStore_next err s1))
      | (Completed, s1) \<Rightarrow> (Completed, s1))"
  by (auto simp add: updateMultipleItemsBehavior_def preventBehaviourIfError_run Let_def map_op_def
      tap_def catchError_def EMPTY_def of_value_def responseStore_next_def
      split: prod.splits notification.splits sum.splits)

lemma deleteItemBehavior_run:
  "deleteItemBehavior idOf itemId source s =
     (case source s of
        (Emitted v, s1) \<Rightarrow>
          (Emitted v,
           isFetchingAfterManipulateStore_next False
             (itemsStore_next (filter (\<lambda>item. idOf item \<noteq> itemId) (itemsStore s1))
                (responseStore_next v s1)))
      | (Errored err, s1) \<Rightarrow>
          (Errored err, isFetchingAfterManipulateStore_next False (errorStore_next err s1))
      | (Completed, s1) \<Rightarrow> (Completed, s1))"
  by (auto simp add: deleteItemBehavior_def preventBehaviourIfError_run Let_def tap_def
      catchError_def of_value_def responseStore_next_def
      split: prod.splits notification.splits)

lemma AbstractStore_fields:
  "AbstractStore =
     \<lparr> itemStore = None, itemsStore = [], isFetchingStore = False,
       isFetchingAfterManipulateStore = False, responseStore = RNull, errorStore = None,
       isFetchingValue = False, isFetchingAfterManipulateValue = False, writes = [] \<rparr>"
  by (simp add: AbstractStore_def Let_def createItemStore_def createItemsStore_def
      createFetchingStore_def)

lemmas next_defs =
  itemStore_next_def itemsStore_next_def isFetchingStore_next_def
  isFetchingAfterManipulateStore_next_def responseStore_next_def errorStore_next_def

section \<open>The error guard\<close>

text \<open>
  C2. A mutation pipeline whose upstream producer fails with \<open>e\<close> before it emits: whatever
  behaviour the guard wraps, it does not run; the subscriber gets the error \<open>e\<close>; the error
  subject holds \<open>e\<close> and the flag of the mutations holds \<^verbatim>\<open>false\<close>; item, list and
  response are as before; and the writes of the run are exactly one write of the error
  subject followed by one write of the flag. The four mutation pipelines are instances.
\<close>

theorem upstream_failure_recorded_and_rethrown:
  "(let s' = isFetchingAfterManipulateStore_next False (errorStore_next e s) in
      preventBehaviourIfError behavior (producer (Errored e)) s = (Errored e, s') \<and>
      createItemBehavior position model (producer (Errored e)) s = (Errored e, s') \<and>
      updateItemBehavior idOf model (producer (Errored e)) s = (Errored e, s') \<and>
      updateMultipleItemsBehavior idOf model (producer (Errored e)) s = (Errored e, s') \<and>
      deleteItemBehavior idOf itemId (producer (Errored e)) s = (Errored e, s') \<and>
      errorStore s' = Some e \<and>
      isFetchingAfterManipulateStore s' = False \<and>
      itemStore s' = itemStore s \<and>
      itemsStore s' = itemsStore s \<and>
      responseStore s' = responseStore s \<and>
      writes s' = writes s @ [ErrorWrite e, IsFetchingAfterManipulateWrite False])"
  by (simp add: Let_def preventBehaviourIfError_run createItemBehavior_run updateItemBehavior_run
      updateMultipleItemsBehavior_run deleteItemBehavior_run producer_def next_defs)

theorem upstream_failure_recorded_and_rethrown_witness:
  "createItemBehavior None Inr (producer (Errored (Thrown (RNum 500)))) (AbstractStore :: raw store)
     = (Errored (Thrown (RNum 500)),
        AbstractStore\<lparr>errorStore := Some (Thrown (RNum 500)),
                      writes := [ErrorWrite (Thrown (RNum 500)),
                                 IsFetchingAfterManipulateWrite False]\<rparr>)"
  using upstream_failure_recorded_and_rethrown
    [of "Thrown (RNum 500)" "AbstractStore :: raw store"
        "id :: (raw, raw) observable \<Rightarrow> (raw, raw) observable" None Inr "\<lambda>r. 0" 0]
  by (simp add: Let_def next_defs AbstractStore_fields)

section \<open>Fetching one entity\<close>

text \<open>
  C8. A fetch of one entity whose producer emits the payload \<open>p\<close> and whose constructor
  builds \<open>m\<close> from \<open>p\<close>: the subscriber gets \<open>m\<close>, the item subject holds \<open>m\<close> and the
  flag of the reads holds \<^verbatim>\<open>false\<close>.
\<close>

theorem fetch_single_success:
  assumes "getModel model p = Inr m"
  shows "fst (getModelAndSetValue model (producer (Emitted p)) s) = Emitted m \<and>
         itemStore (snd (getModelAndSetValue model (producer (Emitted p)) s)) = Some m \<and>
         isFetchingStore (snd (getModelAndSetValue model (producer (Emitted p)) s)) = False"
  using assms
  by (simp add: getModelAndSetValue_run producer_def getModel_def next_defs)

theorem fetch_single_success_witness:
  "getModel Inr (RNum 7) = Inr (RNum 7) \<and>
   fst (getModelAndSetValue Inr (producer (Emitted (RNum 7))) (AbstractStore :: raw store))
     = Emitted (RNum 7) \<and>
   itemStore (snd (getModelAndSetValue Inr (producer (Emitted (RNum 7))) (AbstractStore :: raw store)))
     = Some (RNum 7) \<and>
   isFetchingStore (snd (getModelAndSetValue Inr (producer (Emitted (RNum 7))) (AbstractStore :: raw store)))
     = False"
proof -
  have h: "getModel Inr (RNum 7) = (Inr (RNum 7) :: error + raw)"
    by (simp add: getModel_def)
  show ?thesis
    using h fetch_single_success [OF h, of "AbstractStore :: raw store"] by simp
qed

section \<open>Creating an entity\<close>

text \<open>
  C4. A create whose producer emits the payload \<open>p\<close> and whose constructor builds \<open>m\<close> from
  \<open>p\<close>. With the position \<^verbatim>\<open>'head'\<close> the list subject holds \<open>m\<close> followed by the elements it
  held before; with \<^verbatim>\<open>'last'\<close>, or with no position given, it holds the elements it held
  before, in their order, followed by \<open>m\<close>. In both cases the item subject holds \<open>m\<close> and the
  flag of the mutations holds \<^verbatim>\<open>false\<close>.
\<close>

theorem create_success_position:
  assumes "getModel model p = Inr m"
  shows "(let s' = snd (createItemBehavior position model (producer (Emitted p)) s) in
            (position = Some Head \<longrightarrow>
               itemsStore s' = m # itemsStore s \<and> itemsStore s' ! 0 = m) \<and>
            (position = Some Last \<or> position = None \<longrightarrow>
               itemsStore s' = itemsStore s @ [m] \<and> last (itemsStore s') = m) \<and>
            itemStore s' = Some m \<and>
            isFetchingAfterManipulateStore s' = False \<and>
            fst (createItemBehavior position model (producer (Emitted p)) s) = Emitted m)"
  using assms
  by (auto simp add: Let_def createItemBehavior_run producer_def getModel_def next_defs)

theorem create_success_position_witness:
  "getModel Inr (RNum 3) = Inr (RNum 3) \<and>
   itemsStore (snd (createItemBehavior (Some Head) Inr (producer (Emitted (RNum 3)))
                      ((AbstractStore :: raw store)\<lparr>itemsStore := [RNum 1, RNum 2]\<rparr>)))
     = [RNum 3, RNum 1, RNum 2] \<and>
   itemsStore (snd (createItemBehavior None Inr (producer (Emitted (RNum 3)))
                      ((AbstractStore :: raw store)\<lparr>itemsStore := [RNum 1, RNum 2]\<rparr>)))
     = [RNum 1, RNum 2, RNum 3] \<and>
   itemsStore (snd (createItemBehavior (Some Last) Inr (producer (Emitted (RNum 3)))
                      ((AbstractStore :: raw store)\<lparr>itemsStore := [RNum 1, RNum 2]\<rparr>)))
     = [RNum 1, RNum 2, RNum 3]"
proof -
  have h: "getModel Inr (RNum 3) = (Inr (RNum 3) :: error + raw)"
    by (simp add: getModel_def)
  show ?thesis
    using h
      create_success_position [OF h, of "Some Head" "(AbstractStore :: raw store)\<lparr>itemsStore := [RNum 1, RNum 2]\<rparr>"]
      create_success_position [OF h, of None "(AbstractStore :: raw store)\<lparr>itemsStore := [RNum 1, RNum 2]\<rparr>"]
      create_success_position [OF h, of "Some Last" "(AbstractStore :: raw store)\<lparr>itemsStore := [RNum 1, RNum 2]\<rparr>"]
    by (simp add: Let_def)
qed

section \<open>The getters isLoaded and isLoadedAfterManipulate\<close>

lemma invoke_captured_values:
  "isFetchingValue (invoke idOf model i s) = isFetchingValue s \<and>
   isFetchingAfterManipulateValue (invoke idOf model i s) = isFetchingAfterManipulateValue s"
  by (cases i)
    (simp_all add: getModelAndSetValue_run getModelsAndSetValue_run
      takeItemsGetModelsAndSetValue_run createItemBehavior_run updateItemBehavior_run
      updateMultipleItemsBehavior_run deleteItemBehavior_run producer_def next_defs
      startFetchingWrapper_def startFetchingAfterManipulateWrapper_def
      clearItemStore_def clearItemsStore_def
      split: notification.splits sum.splits)

lemma invokeAll_captured_values:
  "isFetchingValue (invokeAll idOf model ops s) = isFetchingValue s \<and>
   isFetchingAfterManipulateValue (invokeAll idOf model ops s) = isFetchingAfterManipulateValue s"
  by (induction ops arbitrary: s) (simp_all add: invoke_captured_values)

lemma invokeAll_append:
  "invokeAll idOf model (ops @ ops') s = invokeAll idOf model ops' (invokeAll idOf model ops s)"
  by (induction ops arbitrary: s) simp_all

text \<open>
  C3. On a store as constructed, after any sequence of wrapper calls, pipeline runs, setter
  writes and clears, \<^verbatim>\<open>isLoaded\<close> and \<^verbatim>\<open>isLoadedAfterManipulate\<close> are true: they compare the
  values read from the flags at construction. They are true also right after a wrapper has
  written \<^verbatim>\<open>true\<close> to the flag, when the flag subject itself holds \<^verbatim>\<open>true\<close>.
\<close>

theorem isLoaded_always_true:
  "isLoaded (invokeAll idOf model ops AbstractStore) \<and>
   isLoadedAfterManipulate (invokeAll idOf model ops AbstractStore) \<and>
   isFetchingStore (invokeAll idOf model (ops @ [StartFetching]) AbstractStore) \<and>
   isLoaded (invokeAll idOf model (ops @ [StartFetching]) AbstractStore) \<and>
   isFetchingAfterManipulateStore
     (invokeAll idOf model (ops @ [StartFetchingAfterManipulate]) AbstractStore) \<and>
   isLoadedAfterManipulate
     (invokeAll idOf model (ops @ [StartFetchingAfterManipulate]) AbstractStore)"
proof -
  have init: "isFetchingValue (AbstractStore :: 'a store) = False"
    "isFetchingAfterManipulateValue (AbstractStore :: 'a store) = False"
    by (simp_all add: AbstractStore_def createFetchingStore_def)
  have loaded: "isLoaded (invokeAll idOf model xs AbstractStore)"
    "isLoadedAfterManipulate (invokeAll idOf model xs AbstractStore)" for xs
    by (simp_all add: isLoaded_def isLoadedAfterManipulate_def invokeAll_captured_values init)
  have flags: "isFetchingStore (invokeAll idOf model (ops @ [StartFetching]) AbstractStore)"
    "isFetchingAfterManipulateStore
       (invokeAll idOf model (ops @ [StartFetchingAfterManipulate]) AbstractStore)"
    by (simp_all add: invokeAll_append startFetchingWrapper_def
        startFetchingAfterManipulateWrapper_def next_defs)
  from loaded flags show ?thesis by simp
qed

theorem isLoaded_always_true_witness:
  "isLoaded (invokeAll (\<lambda>r. 0) Inr
     [StartFetching, FetchSingle (Errored TypeError), SetIsFetching True]
     (AbstractStore :: raw store)) \<and>
   isFetchingStore (invokeAll (\<lambda>r. 0) Inr
     [StartFetching, FetchSingle (Errored TypeError), SetIsFetching True]
     (AbstractStore :: raw store))"
  using isLoaded_always_true
    [of "\<lambda>r. 0" Inr "[StartFetching, FetchSingle (Errored TypeError), SetIsFetching True]"]
  by (simp add: next_defs)

section \<open>Reconciling the list after an update\<close>

lemma updateItemsArrayById_absent:
  "\<forall>x\<in>set L. idOf x \<noteq> idOf e \<Longrightarrow> updateItemsArrayById idOf L e = L @ [e]"
  by (induction L) simp_all

lemma updateItemsArrayById_present:
  "distinct (map idOf L) \<Longrightarrow> i < length L \<Longrightarrow> idOf (L ! i) = idOf e
     \<Longrightarrow> updateItemsArrayById idOf L e = L[i := e]"
proof (induction L arbitrary: i)
  case Nil
  then show ?case by simp
next
  case (Cons x xs)
  show ?case
  proof (cases i)
    case 0
    with Cons.prems show ?thesis by simp
  next
    case (Suc j)
    with Cons.prems have j: "j < length xs" "idOf (xs ! j) = idOf e"
      by simp_all
    from Cons.prems have d: "distinct (map idOf xs)" "idOf x \<notin> idOf ` set xs"
      by simp_all
    from j have "idOf e \<in> idOf ` set xs"
      by (metis imageI nth_mem)
    with d have "idOf x \<noteq> idOf e"
      by auto
    with Cons.IH [OF d(1) j] Suc show ?thesis
      by simp
  qed
qed

text \<open>
  C5. For a list \<open>L\<close> of entities with unique ids and an entity \<open>e\<close>: if the entry of \<open>L\<close> at
  an index \<open>i\<close> has the id of \<open>e\<close>, the reconciliation gives \<open>L\<close> with \<open>e\<close> at index \<open>i\<close> and
  every other element where it was; if no entry of \<open>L\<close> has the id of \<open>e\<close>, it gives \<open>L\<close>
  followed by \<open>e\<close>. The result is a value of its own: \<open>L\<close> is what it was. A successful
  update of one entity writes this list to the list subject.
\<close>

theorem update_single_reconciliation:
  assumes "distinct (map idOf L)"
  shows "(\<forall>i. i < length L \<and> idOf (L ! i) = idOf e \<longrightarrow>
            updateItemsArrayById idOf L e = L[i := e]) \<and>
         ((\<forall>x\<in>set L. idOf x \<noteq> idOf e) \<longrightarrow> updateItemsArrayById idOf L e = L @ [e]) \<and>
         (\<forall>model p s. getModel model p = Inr e \<and> itemsStore s = L \<longrightarrow>
            itemsStore (snd (updateItemBehavior idOf model (producer (Emitted p)) s))
              = updateItemsArrayById idOf L e)"
  using assms
  by (auto simp add: updateItemsArrayById_absent updateItemsArrayById_present
      updateItemBehavior_run producer_def getModel_def next_defs)

theorem update_single_reconciliation_witness:
  "distinct (map fst [(1::nat, ''a''), (2, ''b'')]) \<and>
   updateItemsArrayById fst [(1::nat, ''a''), (2, ''b'')] (2, ''B'') = [(1, ''a''), (2, ''B'')] \<and>
   updateItemsArrayById fst [(1::nat, ''a''), (2, ''b'')] (3, ''c'')
     = [(1, ''a''), (2, ''b''), (3, ''c'')]"
proof -
  have h: "distinct (map fst [(1::nat, ''a''), (2, ''b'')])"
    by simp
  show ?thesis
    using h update_single_reconciliation [OF h, of "(2, ''B'')"]
      update_single_reconciliation [OF h, of "(3, ''c'')"]
    by (simp add: nth_Cons')
qed

section \<open>Deleting an entity\<close>

lemma filter_other_ids:
  "\<forall>x\<in>set L. idOf x \<noteq> i \<Longrightarrow> filter (\<lambda>item. idOf item \<noteq> i) L = L"
  by (induction L) simp_all

text \<open>
  C6. A delete with the id \<open>i\<close> whose producer emits, on a list \<open>L\<close> with unique ids: the
  list subject is written with \<open>L\<close> without the entry whose id is \<open>i\<close>, the others in their
  order, and then the flag of the mutations with \<^verbatim>\<open>false\<close>. If no entry of \<open>L\<close> has the id
  \<open>i\<close>, the list written has the elements of \<open>L\<close>.
\<close>

theorem delete_success:
  assumes "distinct (map idOf (itemsStore s))"
  shows "(let s' = snd (deleteItemBehavior idOf i (producer (Emitted v)) s) in
            (\<forall>xs y ys. itemsStore s = xs @ y # ys \<and> idOf y = i \<longrightarrow> itemsStore s' = xs @ ys) \<and>
            ((\<forall>x\<in>set (itemsStore s). idOf x \<noteq> i) \<longrightarrow> itemsStore s' = itemsStore s) \<and>
            isFetchingAfterManipulateStore s' = False \<and>
            writes s' = writes s @ [ResponseWrite v, ItemsWrite (itemsStore s'),
                                    IsFetchingAfterManipulateWrite False] \<and>
            fst (deleteItemBehavior idOf i (producer (Emitted v)) s) = Emitted v)"
proof -
  have present: "filter (\<lambda>item. idOf item \<noteq> i) (itemsStore s) = xs @ ys"
    if "itemsStore s = xs @ y # ys" "idOf y = i" for xs y ys
  proof -
    from assms that have "i \<notin> idOf ` set xs" "i \<notin> idOf ` set ys"
      by simp_all
    then have "\<forall>x\<in>set xs. idOf x \<noteq> i" "\<forall>x\<in>set ys. idOf x \<noteq> i"
      by blast+
    with that show ?thesis
      by (simp add: filter_other_ids)
  qed
  let ?s' = "snd (deleteItemBehavior idOf i (producer (Emitted v)) s)"
  have items: "itemsStore ?s' = filter (\<lambda>item. idOf item \<noteq> i) (itemsStore s)"
    by (simp add: deleteItemBehavior_run producer_def next_defs)
  have c1: "\<forall>xs y ys. itemsStore s = xs @ y # ys \<and> idOf y = i \<longrightarrow> itemsStore ?s' = xs @ ys"
    using present items by simp
  have c2: "(\<forall>x\<in>set (itemsStore s). idOf x \<noteq> i) \<longrightarrow> itemsStore ?s' = itemsStore s"
    using items by (simp add: filter_other_ids)
  have c3: "isFetchingAfterManipulateStore ?s' = False"
    by (simp add: deleteItemBehavior_run producer_def next_defs)
  have c4: "writes ?s' = writes s @ [ResponseWrite v, ItemsWrite (itemsStore ?s'),
                                     IsFetchingAfterManipulateWrite False]"
    by (simp add: deleteItemBehavior_run producer_def next_defs)
  have c5: "fst (deleteItemBehavior idOf i (producer (Emitted v)) s) = Emitted v"
    by (simp add: deleteItemBehavior_run producer_def)
  from c1 c2 c3 c4 c5 show ?thesis
    unfolding Let_def by blast
qed

theorem delete_success_witness:
  "distinct (map fst (itemsStore ((AbstractStore :: (nat \<times> string) store)
                                    \<lparr>itemsStore := [(1, ''a''), (2, ''b'')]\<rparr>))) \<and>
   itemsStore (snd (deleteItemBehavior fst 1 (producer (Emitted RNull))
                      ((AbstractStore :: (nat \<times> string) store)
                         \<lparr>itemsStore := [(1, ''a''), (2, ''b'')]\<rparr>))) = [(2, ''b'')] \<and>
   itemsStore (snd (deleteItemBehavior fst 7 (producer (Emitted RNull))
                      ((AbstractStore :: (nat \<times> string) store)
                         \<lparr>itemsStore := [(1, ''a''), (2, ''b'')]\<rparr>))) = [(1, ''a''), (2, ''b'')]"
proof -
  let ?s = "(AbstractStore :: (nat \<times> string) store)\<lparr>itemsStore := [(1, ''a''), (2, ''b'')]\<rparr>"
  have h: "distinct (map fst (itemsStore ?s))"
    by simp
  have one: "itemsStore ?s = [] @ (1, ''a'') # [(2, ''b'')]"
    by simp
  from delete_success [OF h, of 1 RNull] one
  have a: "itemsStore (snd (deleteItemBehavior fst 1 (producer (Emitted RNull)) ?s)) = [] @ [(2, ''b'')]"
    unfolding Let_def by (metis fst_conv)
  from delete_success [OF h, of 7 RNull]
  have b: "itemsStore (snd (deleteItemBehavior fst 7 (producer (Emitted RNull)) ?s)) = itemsStore ?s"
    unfolding Let_def by simp
  from h a b show ?thesis by simp
qed

section \<open>Failures of the read pipelines\<close>

text \<open>
  C7. A read pipeline fails when its producer fails or when its transform step raises on the
  emitted value (for the keyed fetch: the read of the key or the construction of the
  entities). In each case the subscriber's stream completes with no value and no error, the
  flag of the reads holds \<^verbatim>\<open>false\<close>, and the item and list subjects hold what they held.
\<close>

theorem read_failure_swallowed:
  "((n = Errored e \<or> (\<exists>v. n = Emitted v \<and> getModel model v = Inl e)) \<longrightarrow>
      fst (getModelAndSetValue model (producer n) s) = Completed \<and>
      isFetchingStore (snd (getModelAndSetValue model (producer n) s)) = False \<and>
      itemStore (snd (getModelAndSetValue model (producer n) s)) = itemStore s \<and>
      itemsStore (snd (getModelAndSetValue model (producer n) s)) = itemsStore s) \<and>
   ((n = Errored e \<or> (\<exists>v. n = Emitted v \<and> getModels model v = Inl e)) \<longrightarrow>
      fst (getModelsAndSetValue model (producer n) s) = Completed \<and>
      isFetchingStore (snd (getModelsAndSetValue model (producer n) s)) = False \<and>
      itemStore (snd (getModelsAndSetValue model (producer n) s)) = itemStore s \<and>
      itemsStore (snd (getModelsAndSetValue model (producer n) s)) = itemsStore s) \<and>
   ((n = Errored e \<or>
     (\<exists>v. n = Emitted v \<and>
        (getProperty (case key of None \<Rightarrow> ''results'' | Some k \<Rightarrow> k) v = Inl e \<or>
         (\<exists>w. getProperty (case key of None \<Rightarrow> ''results'' | Some k \<Rightarrow> k) v = Inr w \<and>
              getModels model w = Inl e)))) \<longrightarrow>
      fst (takeItemsGetModelsAndSetValue key model (producer n) s) = Completed \<and>
      isFetchingStore (snd (takeItemsGetModelsAndSetValue key model (producer n) s)) = False \<and>
      itemStore (snd (takeItemsGetModelsAndSetValue key model (producer n) s)) = itemStore s \<and>
      itemsStore (snd (takeItemsGetModelsAndSetValue key model (producer n) s)) = itemsStore s)"
proof (intro conjI impI)
  assume "n = Errored e \<or> (\<exists>v. n = Emitted v \<and> getModel model v = Inl e)"
  then have r: "getModelAndSetValue model (producer n) s = (Completed, isFetchingStore_next False s)"
    by (auto simp add: getModelAndSetValue_run producer_def getModel_def)
  show "fst (getModelAndSetValue model (producer n) s) = Completed"
    "isFetchingStore (snd (getModelAndSetValue model (producer n) s)) = False"
    "itemStore (snd (getModelAndSetValue model (producer n) s)) = itemStore s"
    "itemsStore (snd (getModelAndSetValue model (producer n) s)) = itemsStore s"
    by (simp_all add: r next_defs)
next
  assume "n = Errored e \<or> (\<exists>v. n = Emitted v \<and> getModels model v = Inl e)"
  then have r: "getModelsAndSetValue model (producer n) s = (Completed, isFetchingStore_next False s)"
    by (auto simp add: getModelsAndSetValue_run producer_def)
  show "fst (getModelsAndSetValue model (producer n) s) = Completed"
    "isFetchingStore (snd (getModelsAndSetValue model (producer n) s)) = False"
    "itemStore (snd (getModelsAndSetValue model (producer n) s)) = itemStore s"
    "itemsStore (snd (getModelsAndSetValue model (producer n) s)) = itemsStore s"
    by (simp_all add: r next_defs)
next
  let ?k = "case key of None \<Rightarrow> ''results'' | Some k \<Rightarrow> k"
  assume "n = Errored e \<or>
     (\<exists>v. n = Emitted v \<and>
        (getProperty ?k v = Inl e \<or> (\<exists>w. getProperty ?k v = Inr w \<and> getModels model w = Inl e)))"
  then have r: "takeItemsGetModelsAndSetValue key model (producer n) s
                  = (Completed, isFetchingStore_next False s) \<or>
                (\<exists>v. takeItemsGetModelsAndSetValue key model (producer n) s
                  = (Completed, isFetchingStore_next False (responseStore_next v s)))"
    by (auto simp add: takeItemsGetModelsAndSetValue_run producer_def)
  show "fst (takeItemsGetModelsAndSetValue key model (producer n) s) = Completed"
    "isFetchingStore (snd (takeItemsGetModelsAndSetValue key model (producer n) s)) = False"
    "itemStore (snd (takeItemsGetModelsAndSetValue key model (producer n) s)) = itemStore s"
    "itemsStore (snd (takeItemsGetModelsAndSetValue key model (producer n) s)) = itemsStore s"
    using r by (auto simp add: next_defs)
qed

theorem read_failure_swallowed_witness:
  "getModelAndSetValue Inr (producer (Errored TypeError))
     ((AbstractStore :: raw store)\<lparr>itemStore := Some (RNum 1), isFetchingStore := True\<rparr>)
     = (Completed,
        (AbstractStore :: raw store)\<lparr>itemStore := Some (RNum 1), isFetchingStore := False,
                                     writes := [IsFetchingWrite False]\<rparr>) \<and>
   fst (getModelsAndSetValue (Inl \<circ> Thrown) (producer (Emitted (RArr [RNull])))
     ((AbstractStore :: raw store)\<lparr>itemsStore := [RNum 1], isFetchingStore := True\<rparr>))
     = Completed \<and>
   itemsStore (snd (getModelsAndSetValue (Inl \<circ> Thrown) (producer (Emitted (RArr [RNull])))
     ((AbstractStore :: raw store)\<lparr>itemsStore := [RNum 1], isFetchingStore := True\<rparr>)))
     = [RNum 1] \<and>
   fst (takeItemsGetModelsAndSetValue None Inr (producer (Emitted RNull))
     ((AbstractStore :: raw store)\<lparr>itemsStore := [RNum 1], isFetchingStore := True\<rparr>))
     = Completed \<and>
   isFetchingStore (snd (takeItemsGetModelsAndSetValue None Inr (producer (Emitted RNull))
     ((AbstractStore :: raw store)\<lparr>itemsStore := [RNum 1], isFetchingStore := True\<rparr>)))
     = False"
proof -
  let ?s1 = "(AbstractStore :: raw store)\<lparr>itemStore := Some (RNum 1), isFetchingStore := True\<rparr>"
  let ?s2 = "(AbstractStore :: raw store)\<lparr>itemsStore := [RNum 1], isFetchingStore := True\<rparr>"
  let ?bad = "(Inl \<circ> Thrown) :: raw \<Rightarrow> error + raw"
  have h2: "getModels ?bad (RArr [RNull]) = Inl (Thrown RNull)"
    by (simp add: getModels_def)
  have h3: "getProperty ''results'' RNull = Inl TypeError"
    by simp
  have a: "fst (getModelAndSetValue Inr (producer (Errored TypeError)) ?s1) = Completed \<and>
      isFetchingStore (snd (getModelAndSetValue Inr (producer (Errored TypeError)) ?s1)) = False \<and>
      itemStore (snd (getModelAndSetValue Inr (producer (Errored TypeError)) ?s1)) = itemStore ?s1 \<and>
      itemsStore (snd (getModelAndSetValue Inr (producer (Errored TypeError)) ?s1)) = itemsStore ?s1"
    using read_failure_swallowed [of "Errored TypeError" TypeError Inr ?s1 None]
    by blast
  have a': "getModelAndSetValue Inr (producer (Errored TypeError)) ?s1
     = (Completed,
        (AbstractStore :: raw store)\<lparr>itemStore := Some (RNum 1), isFetchingStore := False,
                                     writes := [IsFetchingWrite False]\<rparr>)"
    by (simp add: getModelAndSetValue_run producer_def next_defs AbstractStore_fields)
  have b: "fst (getModelsAndSetValue ?bad (producer (Emitted (RArr [RNull]))) ?s2) = Completed \<and>
      itemsStore (snd (getModelsAndSetValue ?bad (producer (Emitted (RArr [RNull]))) ?s2))
        = itemsStore ?s2"
    using h2 read_failure_swallowed [of "Emitted (RArr [RNull])" "Thrown RNull" ?bad ?s2 None]
    by blast
  have c: "fst (takeItemsGetModelsAndSetValue None Inr (producer (Emitted RNull)) ?s2) = Completed \<and>
      isFetchingStore (snd (takeItemsGetModelsAndSetValue None Inr (producer (Emitted RNull)) ?s2))
        = False"
    using h3 read_failure_swallowed [of "Emitted RNull" TypeError Inr ?s2 None]
    by simp
  from a a' b c show ?thesis by simp
qed

section \<open>Fetching a list from a keyed response\<close>

lemma instances_elementwise:
  "instances model items = Inr ms \<longleftrightarrow> map model items = map Inr ms"
proof (induction items arbitrary: ms)
  case Nil
  then show ?case by auto
next
  case (Cons item items)
  show ?case
  proof (cases "model item")
    case (Inl err)
    then show ?thesis by (cases ms) auto
  next
    case (Inr m)
    show ?thesis
    proof (cases "instances model items")
      case (Inl err)
      with Inr Cons.IH show ?thesis by (cases ms) auto
    next
      case inst: (Inr ms')
      with Inr Cons.IH show ?thesis by (cases ms) auto
    qed
  qed
qed

text \<open>
  C9. A keyed fetch whose producer emits the response \<open>r\<close>, where \<open>r[key]\<close> (the key
  \<^verbatim>\<open>'results'\<close> when none is given) is an array and the constructor builds \<open>ms\<close> from its
  elements, one by one: the writes of the run are, in this order, \<open>r\<close> as it is to the
  response subject, \<open>ms\<close> to the list subject, \<^verbatim>\<open>false\<close> to the flag of the reads (by the
  inner list pipeline and again by the keyed one); the subscriber gets \<open>ms\<close>.
\<close>

theorem fetch_list_keyed_success:
  assumes "getProperty (case key of None \<Rightarrow> ''results'' | Some k \<Rightarrow> k) r = Inr (RArr items)"
    and "map model items = map Inr ms"
  shows "fst (takeItemsGetModelsAndSetValue key model (producer (Emitted r)) s) = Emitted ms \<and>
         writes (snd (takeItemsGetModelsAndSetValue key model (producer (Emitted r)) s))
           = writes s @ [ResponseWrite r, ItemsWrite ms, IsFetchingWrite False, IsFetchingWrite False] \<and>
         responseStore (snd (takeItemsGetModelsAndSetValue key model (producer (Emitted r)) s)) = r \<and>
         itemsStore (snd (takeItemsGetModelsAndSetValue key model (producer (Emitted r)) s)) = ms \<and>
         isFetchingStore (snd (takeItemsGetModelsAndSetValue key model (producer (Emitted r)) s)) = False"
proof -
  from assms(2) have "getModels model (RArr items) = Inr ms"
    by (simp add: getModels_def instances_elementwise)
  with assms(1) show ?thesis
    by (simp add: takeItemsGetModelsAndSetValue_run producer_def next_defs)
qed

theorem fetch_list_keyed_success_witness:
  "getProperty ''results'' (RObj [(''count'', RNum 2), (''results'', RArr [RNum 1, RNum 2])])
     = Inr (RArr [RNum 1, RNum 2]) \<and>
   map Inr [RNum 1, RNum 2] = (map Inr [RNum 1, RNum 2] :: (error + raw) list) \<and>
   writes (snd (takeItemsGetModelsAndSetValue None Inr
       (producer (Emitted (RObj [(''count'', RNum 2), (''results'', RArr [RNum 1, RNum 2])])))
       (AbstractStore :: raw store)))
     = [ResponseWrite (RObj [(''count'', RNum 2), (''results'', RArr [RNum 1, RNum 2])]),
        ItemsWrite [RNum 1, RNum 2], IsFetchingWrite False, IsFetchingWrite False] \<and>
   itemsStore (snd (takeItemsGetModelsAndSetValue (Some ''items'') Inr
       (producer (Emitted (RObj [(''items'', RArr [RNum 5])])))
       (AbstractStore :: raw store)))
     = [RNum 5]"
proof -
  let ?r = "RObj [(''count'', RNum 2), (''results'', RArr [RNum 1, RNum 2])]"
  have h1: "getProperty (case None of None \<Rightarrow> ''results'' | Some k \<Rightarrow> k) ?r
              = Inr (RArr [RNum 1, RNum 2])"
    by simp
  have h2: "map Inr [RNum 1, RNum 2] = (map Inr [RNum 1, RNum 2] :: (error + raw) list)"
    by simp
  have h3: "getProperty (case Some ''items'' of None \<Rightarrow> ''results'' | Some k \<Rightarrow> k)
              (RObj [(''items'', RArr [RNum 5])]) = Inr (RArr [RNum 5])"
    by simp
  have h4: "map Inr [RNum 5] = (map Inr [RNum 5] :: (error + raw) list)"
    by simp
  show ?thesis
    using h1 fetch_list_keyed_success [OF h1 h2, of "AbstractStore :: raw store"]
      fetch_list_keyed_success [OF h3 h4, of "AbstractStore :: raw store"]
    by (simp add: AbstractStore_fields)
qed

section \<open>A transform that fails inside a mutation pipeline\<close>

text \<open>
  C1, as stated, at a concrete input: a create on a new store whose constructor raises on
  the payload. The subscriber's stream completes with no error, the error subject still
  holds \<^verbatim>\<open>null\<close>, and the only writes are the response and the flag.
\<close>

theorem transform_failure_counterexample:
  "getModel (Inl \<circ> Thrown) (RStr ''bad'') = (Inl (Thrown (RStr ''bad'')) :: error + raw) \<and>
   fst (createItemBehavior None (Inl \<circ> Thrown) (producer (Emitted (RStr ''bad'')))
          (AbstractStore :: raw store)) = Completed \<and>
   fst (createItemBehavior None (Inl \<circ> Thrown) (producer (Emitted (RStr ''bad'')))
          (AbstractStore :: raw store)) \<noteq> Errored (Thrown (RStr ''bad'')) \<and>
   errorStore (snd (createItemBehavior None (Inl \<circ> Thrown) (producer (Emitted (RStr ''bad'')))
          (AbstractStore :: raw store))) = None \<and>
   writes (snd (createItemBehavior None (Inl \<circ> Thrown) (producer (Emitted (RStr ''bad'')))
          (AbstractStore :: raw store)))
     = [ResponseWrite (RStr ''bad''), IsFetchingAfterManipulateWrite False]"
  by (simp add: createItemBehavior_run producer_def getModel_def next_defs AbstractStore_fields)

text \<open>
  C1, amended. In the create, update and bulk-update pipelines the guard's handler sits
  before the wrapped behaviour, and the behaviour ends in a handler of its own. A transform
  that raises on the emitted payload \<open>v\<close> is caught by the latter: the response subject has
  been written with \<open>v\<close>, the flag of the mutations is written with \<^verbatim>\<open>false\<close>, the
  subscriber's stream completes with no value and no error, and the error, item and list
  subjects are not written. The delete pipeline has no transform step: it emits what its
  producer emitted.
\<close>

theorem transform_failure_swallowed:
  "(let s' = isFetchingAfterManipulateStore_next False (responseStore_next v s) in
      (getModel model v = Inl e \<longrightarrow>
         createItemBehavior position model (producer (Emitted v)) s = (Completed, s')) \<and>
      (getModel model v = Inl e \<longrightarrow>
         updateItemBehavior idOf model (producer (Emitted v)) s = (Completed, s')) \<and>
      (getModels model v = Inl e \<longrightarrow>
         updateMultipleItemsBehavior idOf model (producer (Emitted v)) s = (Completed, s')) \<and>
      fst (deleteItemBehavior idOf itemId (producer (Emitted v)) s) = Emitted v \<and>
      errorStore s' = errorStore s \<and>
      isFetchingAfterManipulateStore s' = False \<and>
      responseStore s' = v \<and>
      itemStore s' = itemStore s \<and>
      itemsStore s' = itemsStore s \<and>
      writes s' = writes s @ [ResponseWrite v, IsFetchingAfterManipulateWrite False])"
  by (simp add: Let_def createItemBehavior_run updateItemBehavior_run
      updateMultipleItemsBehavior_run deleteItemBehavior_run producer_def getModel_def next_defs)

theorem transform_failure_swallowed_witness:
  "getModel (Inl \<circ> Thrown) (RNum 4) = (Inl (Thrown (RNum 4)) :: error + raw) \<and>
   getModels (Inl \<circ> Thrown) (RArr [RNum 4]) = (Inl (Thrown (RNum 4)) :: error + raw list) \<and>
   updateItemBehavior (\<lambda>r. 0) (Inl \<circ> Thrown) (producer (Emitted (RNum 4)))
       ((AbstractStore :: raw store)\<lparr>isFetchingAfterManipulateStore := True\<rparr>)
     = (Completed,
        (AbstractStore :: raw store)\<lparr>responseStore := RNum 4,
           writes := [ResponseWrite (RNum 4), IsFetchingAfterManipulateWrite False]\<rparr>) \<and>
   updateMultipleItemsBehavior (\<lambda>r. 0) (Inl \<circ> Thrown) (producer (Emitted (RArr [RNum 4])))
       ((AbstractStore :: raw store)\<lparr>isFetchingAfterManipulateStore := True\<rparr>)
     = (Completed,
        (AbstractStore :: raw store)\<lparr>responseStore := RArr [RNum 4],
           writes := [ResponseWrite (RArr [RNum 4]), IsFetchingAfterManipulateWrite False]\<rparr>)"
proof -
  let ?bad = "(Inl \<circ> Thrown) :: raw \<Rightarrow> error + raw"
  let ?s = "(AbstractStore :: raw store)\<lparr>isFetchingAfterManipulateStore := True\<rparr>"
  have h1: "getModel ?bad (RNum 4) = Inl (Thrown (RNum 4))"
    by (simp add: getModel_def)
  have h2: "getModels ?bad (RArr [RNum 4]) = Inl (Thrown (RNum 4))"
    by (simp add: getModels_def)
  show ?thesis
    using h1 h2
      transform_failure_swallowed [of "RNum 4" ?s ?bad "Thrown (RNum 4)" None "\<lambda>r. 0" 0]
      transform_failure_swallowed [of "RArr [RNum 4]" ?s ?bad "Thrown (RNum 4)" None "\<lambda>r. 0" 0]
    by (simp add: Let_def next_defs AbstractStore_fields)
qed

section \<open>When the flags are raised\<close>

text \<open>
  The methods of the Dream store that go through a wrapper write \<^verbatim>\<open>true\<close> to their flag
  when they are called, and that is their only write: the observable they return has not
  been subscribed.
\<close>

lemma wrapped_methods_raise_flag_at_call:
  "snd (getProfileDreams model api s) = isFetchingStore_next True s \<and>
   snd (getDreamsAsAdmin model api s) = isFetchingStore_next True s \<and>
   snd (getPlatformDreamsAsAdmin model api s) = isFetchingStore_next True s \<and>
   snd (getDreamById model api s) = isFetchingStore_next True s \<and>
   snd (getDreamByIdAsAdmin model api s) = isFetchingStore_next True s \<and>
   snd (createDream model api s) = isFetchingAfterManipulateStore_next True s \<and>
   snd (updateDreamAsAdmin idOf model api s) = isFetchingAfterManipulateStore_next True s \<and>
   snd (updateMultipleDreams idOf model api s) = isFetchingAfterManipulateStore_next True s \<and>
   snd (updateMultiplePlatformDreams idOf model api s) = isFetchingAfterManipulateStore_next True s"
  by (simp add: getProfileDreams_def getDreamsAsAdmin_def getPlatformDreamsAsAdmin_def
      getDreamById_def getDreamByIdAsAdmin_def createDream_def updateDreamAsAdmin_def
      updateMultipleDreams_def updateMultiplePlatformDreams_def startFetchingWrapper_def
      startFetchingAfterManipulateWrapper_def)

text \<open>
  C10, at the methods that miss the wrapper. \<^verbatim>\<open>setIsDreamCompleted\<close> and
  \<^verbatim>\<open>setIsWithDelivery\<close> pipe the request through the update pipeline, as
  \<^verbatim>\<open>updateDreamAsAdmin\<close> does, but write nothing when they are called: the store is as it
  was, so on a new store the flag of the mutations holds \<^verbatim>\<open>false\<close> after the call. When
  the observable is subscribed and the update succeeds, the flag is written once, with
  \<^verbatim>\<open>false\<close>.
\<close>

theorem unwrapped_mutations_write_no_flag:
  "snd (setIsDreamCompleted idOf model api s) = s \<and>
   snd (setIsWithDelivery idOf model api s) = s \<and>
   isFetchingAfterManipulateStore (snd (setIsDreamCompleted idOf model api AbstractStore)) = False \<and>
   writes (snd (setIsDreamCompleted idOf model api AbstractStore)) = [] \<and>
   isFetchingAfterManipulateStore (snd (updateDreamAsAdmin idOf model api AbstractStore)) = True \<and>
   writes (snd (fst (setIsDreamCompleted idOf Inr (producer (Emitted v)) AbstractStore)
                  (snd (setIsDreamCompleted idOf Inr (producer (Emitted v)) AbstractStore))))
     = [ResponseWrite v, ItemWrite (Some v), ItemsWrite [v], IsFetchingAfterManipulateWrite False]"
  by (simp add: setIsDreamCompleted_def setIsWithDelivery_def updateDreamAsAdmin_def
      startFetchingAfterManipulateWrapper_def updateItemBehavior_run producer_def next_defs
      AbstractStore_fields)

end
